theory Spec2Isabelle
  imports Complex_Main
begin

chapter \<open>Voice interview practice tool: speech output adapter and session coordinator\<close>

text \<open>
  The development embeds two source files:
  \<^item> \<^verbatim>\<open>src/utils/speechSynthesis.ts\<close>: the class \<^verbatim>\<open>BrowserTTS\<close> (voice selection,
    \<^verbatim>\<open>speak\<close>, \<^verbatim>\<open>stop\<close>, and the handlers it attaches to an utterance);
  \<^item> \<^verbatim>\<open>src/components/VoiceInterviewScreen.tsx\<close>: the handlers
    \<^verbatim>\<open>startVoiceInterview\<close>, \<^verbatim>\<open>pauseInterview\<close>, \<^verbatim>\<open>resumeInterview\<close>,
    \<^verbatim>\<open>endInterview\<close> and \<^verbatim>\<open>submitVoiceResponse\<close> of the screen component.

  Strings are \<^typ>\<open>string\<close> (lists of 8-bit characters), so the string functions below
  agree with JavaScript's on ASCII text. An awaited call is modelled by its outcome, given
  as an argument of the handler that awaits it; calls made on collaborators are recorded in
  the order in which the handler makes them.
\<close>

section \<open>JavaScript string functions\<close>

text \<open>\<^verbatim>\<open>String.prototype.toLowerCase\<close> on ASCII: the letters A-Z (65..90) move to a-z.\<close>

definition toLowerChar :: "char \<Rightarrow> char" where
  "toLowerChar c =
     (let n = (of_char c :: nat) in if 65 \<le> n \<and> n \<le> 90 then char_of (n + 32) else c)"

definition toLowerCase :: "string \<Rightarrow> string" where
  "toLowerCase s = map toLowerChar s"

text \<open>\<^verbatim>\<open>s.startsWith(p)\<close>.\<close>

definition startsWith :: "string \<Rightarrow> string \<Rightarrow> bool" where
  "startsWith s p = (take (length p) s = p)"

text \<open>\<^verbatim>\<open>s.includes(t)\<close>: \<open>t\<close> occurs in \<open>s\<close> as a contiguous substring.\<close>

fun includesStr :: "string \<Rightarrow> string \<Rightarrow> bool" where
  "includesStr [] t = (t = [])"
| "includesStr (c # cs) t = (startsWith (c # cs) t \<or> includesStr cs t)"

text \<open>\<^verbatim>\<open>s.split('-')[0]\<close>: the text before the first hyphen, all of \<open>s\<close> when it has none.\<close>

definition primarySubtag :: "string \<Rightarrow> string" where
  "primarySubtag s = takeWhile (\<lambda>c. c \<noteq> CHR ''-'') s"

text \<open>
  \<^verbatim>\<open>String.prototype.trim\<close> on ASCII: tab, line feed, vertical tab, form feed, carriage
  return and space (codes 9..13 and 32) are removed at both ends.
\<close>

definition isWhiteSpace :: "char \<Rightarrow> bool" where
  "isWhiteSpace c = (let n = (of_char c :: nat) in (9 \<le> n \<and> n \<le> 13) \<or> n = 32)"

definition trim :: "string \<Rightarrow> string" where
  "trim s = rev (dropWhile isWhiteSpace (rev (dropWhile isWhiteSpace s)))"

section \<open>The speech output adapter (\<^verbatim>\<open>BrowserTTS\<close>)\<close>

subsection \<open>Data\<close>

text \<open>\<^verbatim>\<open>SpeechSynthesisVoice\<close>, with the two fields the adapter reads.\<close>

record voice =
  name :: string
  lang :: string

text \<open>\<^verbatim>\<open>SpeechOptions\<close>: every field is optional.\<close>

record speechOptions =
  opt_rate :: "rat option"
  opt_pitch :: "rat option"
  opt_volume :: "rat option"
  opt_voice :: "voice option"
  opt_lang :: "string option"

text \<open>\<^verbatim>\<open>SpeechResult\<close>.\<close>

record speechResult =
  success :: bool
  error_message :: "string option"

text \<open>
  A callback passed by the caller of \<^verbatim>\<open>speak\<close> is an opaque token; invoking it is recorded.
  An absent callback (\<^verbatim>\<open>onEnd?.()\<close>) records nothing.
\<close>

type_synonym callback = string

text \<open>
  The \<^verbatim>\<open>SpeechSynthesisUtterance\<close> built by \<^verbatim>\<open>speak\<close>. Its five handlers are closures
  over the three callbacks of that call, which the record therefore carries.
\<close>

record utterance =
  utt_text :: string
  utt_rate :: rat
  utt_pitch :: rat
  utt_volume :: rat
  utt_lang :: string
  utt_voice :: "voice option"
  cb_onStart :: "callback option"
  cb_onEnd :: "callback option"
  cb_onError :: "callback option"

text \<open>Calls the adapter makes on \<^verbatim>\<open>window.speechSynthesis\<close>.\<close>

datatype synthesisCall = SynthCancel | SynthSpeak utterance | SynthPause | SynthResume

text \<open>
  What a caller of \<^verbatim>\<open>speak\<close> can observe: a callback invoked (\<^verbatim>\<open>onError\<close> with its
  message), or the returned promise resolved, tagged with the text of the call.
\<close>

datatype notification =
    Invoked callback
  | InvokedWith callback string
  | Resolved string speechResult

text \<open>
  The fields of \<^verbatim>\<open>BrowserTTS\<close>. \<open>synthesis\<close> is whether \<^verbatim>\<open>this.synthesis\<close> is non-null;
  \<open>synthesisCalls\<close> and \<open>notifications\<close> are the two observation logs, oldest first.
\<close>

record browserTTS =
  synthesis :: bool
  voices :: "voice list"
  isSupported :: bool
  currentUtterance :: "utterance option"
  synthesisCalls :: "synthesisCall list"
  notifications :: "notification list"

subsection \<open>Voice selection\<close>

text \<open>The seven tokens tested against the lower-cased voice name.\<close>

definition femaleHint :: "voice \<Rightarrow> bool" where
  "femaleHint v =
     (includesStr (toLowerCase (name v)) ''female'' \<or>
      includesStr (toLowerCase (name v)) ''woman'' \<or>
      includesStr (toLowerCase (name v)) ''samantha'' \<or>
      includesStr (toLowerCase (name v)) ''karen'' \<or>
      includesStr (toLowerCase (name v)) ''zira'' \<or>
      includesStr (toLowerCase (name v)) ''susan'' \<or>
      includesStr (toLowerCase (name v)) ''allison'')"

text \<open>\<^verbatim>\<open>voice.lang.startsWith(lang.split('-')[0])\<close>: the voice's tag is compared as it is.\<close>

definition langMatches :: "string \<Rightarrow> voice \<Rightarrow> bool" where
  "langMatches requested v = startsWith (lang v) (primarySubtag requested)"

text \<open>\<^verbatim>\<open>getPreferredVoice\<close>: two filters over \<^verbatim>\<open>this.voices\<close>, then the first voice.\<close>

definition getPreferredVoice :: "browserTTS \<Rightarrow> string \<Rightarrow> voice option" where
  "getPreferredVoice t requested =
     (let femaleVoices = filter (\<lambda>v. langMatches requested v \<and> femaleHint v) (voices t) in
      case femaleVoices of
        v # _ \<Rightarrow> Some v
      | [] \<Rightarrow>
          (let langVoices = filter (\<lambda>v. langMatches requested v) (voices t) in
           case langVoices of
             v # _ \<Rightarrow> Some v
           | [] \<Rightarrow> (case voices t of v # _ \<Rightarrow> Some v | [] \<Rightarrow> None)))"

text \<open>
  The selection as the specification words it, for comparison: the same three tiers with
  \<^emph>\<open>all\<close> matching case-insensitive, the language prefix included.
\<close>

definition langMatches_spec :: "string \<Rightarrow> voice \<Rightarrow> bool" where
  "langMatches_spec requested v =
     startsWith (toLowerCase (lang v)) (toLowerCase (primarySubtag requested))"

definition selectPreferredVoice_spec :: "voice list \<Rightarrow> string \<Rightarrow> voice option" where
  "selectPreferredVoice_spec vs requested =
     (case find (\<lambda>v. langMatches_spec requested v \<and> femaleHint v) vs of
        Some v \<Rightarrow> Some v
      | None \<Rightarrow>
          (case find (\<lambda>v. langMatches_spec requested v) vs of
             Some v \<Rightarrow> Some v
           | None \<Rightarrow> (case vs of v # _ \<Rightarrow> Some v | [] \<Rightarrow> None)))"

subsection \<open>Stopping and speaking\<close>

definition synthCall :: "synthesisCall \<Rightarrow> browserTTS \<Rightarrow> browserTTS" where
  "synthCall c t = t\<lparr>synthesisCalls := synthesisCalls t @ [c]\<rparr>"

definition notify :: "notification \<Rightarrow> browserTTS \<Rightarrow> browserTTS" where
  "notify n t = t\<lparr>notifications := notifications t @ [n]\<rparr>"

text \<open>\<^verbatim>\<open>cb?.()\<close> and \<^verbatim>\<open>cb?.(message)\<close>.\<close>

definition invoke :: "callback option \<Rightarrow> browserTTS \<Rightarrow> browserTTS" where
  "invoke cb t = (case cb of None \<Rightarrow> t | Some c \<Rightarrow> notify (Invoked c) t)"

definition invokeWith :: "callback option \<Rightarrow> string \<Rightarrow> browserTTS \<Rightarrow> browserTTS" where
  "invokeWith cb msg t = (case cb of None \<Rightarrow> t | Some c \<Rightarrow> notify (InvokedWith c msg) t)"

text \<open>\<^verbatim>\<open>stop\<close>: cancels on the platform and clears the slot, when the slot is filled.\<close>

definition stop :: "browserTTS \<Rightarrow> browserTTS" where
  "stop t =
     (if synthesis t \<and> currentUtterance t \<noteq> None
      then (synthCall SynthCancel t)\<lparr>currentUtterance := None\<rparr>
      else t)"

text \<open>
  The utterance \<^verbatim>\<open>speak\<close> builds: the text, the options with their defaults (rate 0.9,
  pitch 1.0, volume 1.0, language en-US), the explicit voice or else the preferred voice
  for the utterance's language, and the handlers closing over the call's callbacks.
\<close>

definition newUtterance ::
  "string \<Rightarrow> speechOptions \<Rightarrow> callback option \<Rightarrow> callback option \<Rightarrow> callback option \<Rightarrow>
   browserTTS \<Rightarrow> utterance" where
  "newUtterance txt options onStart onEnd onError t =
     (let l = (case opt_lang options of Some l \<Rightarrow> l | None \<Rightarrow> ''en-US'')
      in \<lparr>utt_text = txt,
          utt_rate = (case opt_rate options of Some r \<Rightarrow> r | None \<Rightarrow> 9 / 10),
          utt_pitch = (case opt_pitch options of Some p \<Rightarrow> p | None \<Rightarrow> 1),
          utt_volume = (case opt_volume options of Some v \<Rightarrow> v | None \<Rightarrow> 1),
          utt_lang = l,
          utt_voice = (case opt_voice options of
                         Some v \<Rightarrow> Some v
                       | None \<Rightarrow> getPreferredVoice t l),
          cb_onStart = onStart, cb_onEnd = onEnd, cb_onError = onError\<rparr>)"

text \<open>
  \<^verbatim>\<open>speak\<close>. The argument \<open>thrown\<close> is the outcome of the platform's
  \<^verbatim>\<open>synthesis.speak(utterance)\<close>: \<open>None\<close> when it returns, \<open>Some e\<close> when it throws
  \<open>e\<close> (the call is then not recorded as made). The promise stays pending until a handler
  of the utterance resolves it.
\<close>

definition speak ::
  "string \<Rightarrow> speechOptions \<Rightarrow> callback option \<Rightarrow> callback option \<Rightarrow> callback option \<Rightarrow>
   string option \<Rightarrow> browserTTS \<Rightarrow> browserTTS" where
  "speak txt options onStart onEnd onError thrown t =
     (if \<not> isSupported t \<or> \<not> synthesis t then
        (let err = ''Speech synthesis not supported in this browser'' in
         notify (Resolved txt \<lparr>success = False, error_message = Some err\<rparr>)
           (invokeWith onError err t))
      else
        (let t1 = stop t;
             u = newUtterance txt options onStart onEnd onError t1;
             t2 = t1\<lparr>currentUtterance := Some u\<rparr>
         in case thrown of
              None \<Rightarrow> synthCall (SynthSpeak u) t2
            | Some e \<Rightarrow>
                (let errorMessage = ''Failed to start speech: '' @ e in
                 notify (Resolved txt \<lparr>success = False, error_message = Some errorMessage\<rparr>)
                   (invokeWith onError errorMessage t2))))"

text \<open>
  The events the platform delivers to an utterance, and the handlers \<^verbatim>\<open>speak\<close> attached
  to it (\<^verbatim>\<open>onstart\<close>, \<^verbatim>\<open>onend\<close>, \<^verbatim>\<open>onerror\<close>, \<^verbatim>\<open>onpause\<close>, \<^verbatim>\<open>onresume\<close>). The
  handlers stay attached for the utterance's lifetime; \<^verbatim>\<open>onend\<close> and \<^verbatim>\<open>onerror\<close> clear
  \<^verbatim>\<open>this.currentUtterance\<close> whichever utterance it holds.
\<close>

datatype utteranceEvent = EvStart | EvEnd | EvError string | EvPause | EvResume

fun handleEvent :: "utterance \<Rightarrow> utteranceEvent \<Rightarrow> browserTTS \<Rightarrow> browserTTS" where
  "handleEvent u EvStart t = invoke (cb_onStart u) t"
| "handleEvent u EvEnd t =
     notify (Resolved (utt_text u) \<lparr>success = True, error_message = None\<rparr>)
       (invoke (cb_onEnd u) (t\<lparr>currentUtterance := None\<rparr>))"
| "handleEvent u (EvError code) t =
     (let errorMessage = ''Speech synthesis error: '' @ code in
      notify (Resolved (utt_text u) \<lparr>success = False, error_message = Some errorMessage\<rparr>)
        (invokeWith (cb_onError u) errorMessage (t\<lparr>currentUtterance := None\<rparr>)))"
| "handleEvent u EvPause t = t"
| "handleEvent u EvResume t = t"

section \<open>The screen component (\<^verbatim>\<open>VoiceInterviewScreen\<close>)\<close>

subsection \<open>Data\<close>

datatype connectionStatus = disconnected | connecting | connected | error

text \<open>
  The object \<^verbatim>\<open>VoiceInterviewService.startVoiceInterview\<close> resolves to (typed \<^verbatim>\<open>any\<close> in
  the component), with the four fields the component reads.
\<close>

record voiceSession =
  sessionId :: string
  wsUrl :: string
  participantToken :: string
  firstQuestion :: "string option"

text \<open>The result of \<^verbatim>\<open>VoiceInterviewService.processVoiceResponse\<close>.\<close>

record questionPayload =
  question :: string

record voiceResponse =
  isComplete :: bool
  nextQuestion :: "questionPayload option"

text \<open>The outcome of an awaited promise.\<close>

datatype 'a settled = Fulfilled 'a | Rejected string

text \<open>
  The calls a handler makes on its collaborators: the remote session client
  (\<^verbatim>\<open>VoiceInterviewService\<close>, with the session id), the transport hook \<^verbatim>\<open>useLiveKit\<close>, the
  speech input hook \<^verbatim>\<open>useSpeechRecognition\<close>, the simulator, the parent's
  \<^verbatim>\<open>onEndInterview\<close>, and \<^verbatim>\<open>console.error\<close>. The metadata object passed along with a
  response (audio level, duration, the constant confidence) is left out of \<open>ServiceProcess\<close>.
\<close>

datatype call =
    ServiceStart string
  | ServicePause string
  | ServiceResume string
  | ServiceEnd string
  | ServiceProcess string string
  | ConnectLiveKit
  | DisconnectLiveKit
  | StartAudio
  | StopAudio
  | StopListening
  | ResetTranscript
  | SimulatorSubmit string
  | OnEndInterview
  | ConsoleError string string

text \<open>
  The component's state variables that the five handlers read or write, the transcript
  exposed by the speech input hook, and the log of calls, oldest first.
\<close>

record screen =
  isInterviewActive :: bool
  currentQuestion :: string
  startTime :: "nat option"
  isThinking :: bool
  voiceSession :: "voiceSession option"
  connectionStatus :: connectionStatus
  participantName :: string
  transcript :: string
  calls :: "call list"

definition emit :: "call \<Rightarrow> screen \<Rightarrow> screen" where
  "emit c s = s\<lparr>calls := calls s @ [c]\<rparr>"

text \<open>
  Modelled from the spec: \<^verbatim>\<open>resetTranscript\<close> of the hook \<^verbatim>\<open>useSpeechRecognition\<close>, whose
  source is not among the files. The specification has the transcript "reset to empty" by
  it; the other hook functions the handlers call (\<^verbatim>\<open>stopListening\<close>, \<^verbatim>\<open>stopAudio\<close>,
  \<^verbatim>\<open>disconnectLiveKit\<close>) return normally ("adapter-level errors never raise") and are
  recorded as calls.
\<close>

definition resetTranscript :: "screen \<Rightarrow> screen" where
  "resetTranscript s = emit ResetTranscript (s\<lparr>transcript := []\<rparr>)"

subsection \<open>Handlers\<close>

text \<open>
  Each handler runs from its first statement to its last with the outcomes of its awaited
  calls as arguments. \<open>now\<close> is \<^verbatim>\<open>Date.now()\<close>.
\<close>

definition startVoiceInterview ::
  "voiceSession settled \<Rightarrow> unit settled \<Rightarrow> nat \<Rightarrow> screen \<Rightarrow> screen" where
  "startVoiceInterview started connectedLK now s =
     (let s1 = emit (ServiceStart (participantName s))
                 (s\<lparr>isThinking := True, connectionStatus := connecting\<rparr>);
          catch = (\<lambda>e s'. (emit (ConsoleError ''Error starting voice interview:'' e) s')
                              \<lparr>connectionStatus := error, isThinking := False\<rparr>)
      in case started of
           Rejected e \<Rightarrow> catch e s1
         | Fulfilled session \<Rightarrow>
             (let s2 = emit ConnectLiveKit
                         (s1\<lparr>voiceSession := Some session,
                             currentQuestion :=
                               (case firstQuestion session of Some q \<Rightarrow> q | None \<Rightarrow> [])\<rparr>)
              in case connectedLK of
                   Rejected e \<Rightarrow> catch e s2
                 | Fulfilled _ \<Rightarrow>
                     s2\<lparr>isInterviewActive := True, startTime := Some now,
                        isThinking := False\<rparr>))"

definition pauseInterview :: "unit settled \<Rightarrow> screen \<Rightarrow> screen" where
  "pauseInterview paused s =
     (let s1 = emit StopAudio (emit StopListening (s\<lparr>isInterviewActive := False\<rparr>))
      in case voiceSession s of
           None \<Rightarrow> s1
         | Some v \<Rightarrow>
             (let s2 = emit (ServicePause (sessionId v)) s1
              in case paused of
                   Fulfilled _ \<Rightarrow> s2
                 | Rejected e \<Rightarrow> emit (ConsoleError ''Error pausing interview:'' e) s2))"

definition resumeInterview :: "unit settled \<Rightarrow> unit settled \<Rightarrow> screen \<Rightarrow> screen" where
  "resumeInterview resumed audioStarted s =
     (let s1 = s\<lparr>isInterviewActive := True\<rparr>
      in case voiceSession s of
           None \<Rightarrow> s1
         | Some v \<Rightarrow>
             (let s2 = emit (ServiceResume (sessionId v)) s1
              in case resumed of
                   Rejected e \<Rightarrow> emit (ConsoleError ''Error resuming interview:'' e) s2
                 | Fulfilled _ \<Rightarrow>
                     (let s3 = emit StartAudio s2
                      in case audioStarted of
                           Rejected e \<Rightarrow> emit (ConsoleError ''Error resuming interview:'' e) s3
                         | Fulfilled _ \<Rightarrow> s3)))"

definition endInterview :: "unit settled \<Rightarrow> screen \<Rightarrow> screen" where
  "endInterview ended s =
     (let s1 = emit DisconnectLiveKit
                 (emit StopAudio (emit StopListening (s\<lparr>isInterviewActive := False\<rparr>)));
          s2 = (case voiceSession s of
                  None \<Rightarrow> s1
                | Some v \<Rightarrow>
                    (let s' = emit (ServiceEnd (sessionId v)) s1
                     in case ended of
                          Fulfilled _ \<Rightarrow> s'
                        | Rejected e \<Rightarrow> emit (ConsoleError ''Error ending interview:'' e) s'))
      in emit OnEndInterview s2)"

text \<open>
  \<^verbatim>\<open>submitVoiceResponse\<close>. The call \<^verbatim>\<open>endInterview()\<close> in it is not awaited; the thinking
  flag is the only thing written after it, so running it to its end first gives the same
  final state and the same order of calls.
\<close>

definition submitVoiceResponse ::
  "voiceResponse settled \<Rightarrow> unit settled \<Rightarrow> unit settled \<Rightarrow> screen \<Rightarrow> screen" where
  "submitVoiceResponse processed simulated ended s =
     (if trim (transcript s) = [] \<or> voiceSession s = None then s
      else case voiceSession s of
        None \<Rightarrow> s
      | Some v \<Rightarrow>
        (let s1 = (emit StopListening s)\<lparr>isThinking := True\<rparr>;
             s2 = emit (ServiceProcess (sessionId v) (trim (transcript s))) s1;
             catch = (\<lambda>e s'. emit (ConsoleError ''Error submitting voice response:'' e) s');
             s3 = (case processed of
                     Rejected e \<Rightarrow> catch e s2
                   | Fulfilled result \<Rightarrow>
                       (let s4 = emit (SimulatorSubmit (trim (transcript s))) s2
                        in case simulated of
                             Rejected e \<Rightarrow> catch e s4
                           | Fulfilled _ \<Rightarrow>
                               if isComplete result then endInterview ended s4
                               else (case nextQuestion result of
                                       Some q \<Rightarrow>
                                         resetTranscript (s4\<lparr>currentQuestion := question q\<rparr>)
                                     | None \<Rightarrow> s4)))
         in s3\<lparr>isThinking := False\<rparr>))"

text \<open>Several \<^verbatim>\<open>pauseInterview\<close> calls in a row, one outcome of the remote call for each.\<close>

fun pauseRepeatedly :: "unit settled list \<Rightarrow> screen \<Rightarrow> screen" where
  "pauseRepeatedly [] s = s"
| "pauseRepeatedly (r # rs) s = pauseRepeatedly rs (pauseInterview r s)"

subsection \<open>The page: the screen together with the speech output singleton\<close>

text \<open>
  \<^verbatim>\<open>speechSynthesis.ts\<close> exports one instance, \<^verbatim>\<open>browserTTS\<close>, for the whole page. The
  screen component does not import that module, so its handlers act on the first component
  of the page only.
\<close>

record page =
  ui :: screen
  speechOutput :: browserTTS

definition pageEndInterview :: "unit settled \<Rightarrow> page \<Rightarrow> page" where
  "pageEndInterview ended p = p\<lparr>ui := endInterview ended (ui p)\<rparr>"

section \<open>Concrete states\<close>

definition exampleSession :: voiceSession where
  "exampleSession =
     \<lparr>sessionId = ''session-1'', wsUrl = ''wss://room.example'', participantToken = ''token'',
      firstQuestion = Some ''Tell me about yourself.''\<rparr>"

text \<open>Before the first start: nothing acquired, no session handle.\<close>

definition idleScreen :: screen where
  "idleScreen =
     \<lparr>isInterviewActive = False, currentQuestion = [], startTime = None, isThinking = False,
      voiceSession = None, connectionStatus = disconnected,
      participantName = ''participant-1'', transcript = [], calls = []\<rparr>"

text \<open>A started and connected interview with the given transcript.\<close>

definition activeScreen :: "string \<Rightarrow> screen" where
  "activeScreen spoken =
     \<lparr>isInterviewActive = True, currentQuestion = ''Tell me about yourself.'',
      startTime = Some 1000, isThinking = False, voiceSession = Some exampleSession,
      connectionStatus = connected, participantName = ''participant-1'',
      transcript = spoken, calls = []\<rparr>"

text \<open>The same interview after one \<^verbatim>\<open>pauseInterview\<close>, with an empty call log.\<close>

definition pausedScreen :: screen where
  "pausedScreen = (activeScreen [])\<lparr>isInterviewActive := False\<rparr>"

definition catalogTTS :: "voice list \<Rightarrow> browserTTS" where
  "catalogTTS vs =
     \<lparr>synthesis = True, voices = vs, isSupported = True, currentUtterance = None,
      synthesisCalls = [], notifications = []\<rparr>"

definition noOptions :: speechOptions where
  "noOptions =
     \<lparr>opt_rate = None, opt_pitch = None, opt_volume = None, opt_voice = None, opt_lang = None\<rparr>"

definition zira :: voice where
  "zira = \<lparr>name = ''Microsoft Zira'', lang = ''en-US''\<rparr>"

definition generic :: voice where
  "generic = \<lparr>name = ''Generic'', lang = ''en-GB''\<rparr>"

definition hortense :: voice where
  "hortense = \<lparr>name = ''Microsoft Hortense'', lang = ''fr-FR''\<rparr>"

text \<open>
  \<^verbatim>\<open>speak("hello", {}, ...)\<close> then \<^verbatim>\<open>speak("world", {}, ...)\<close> on a supported adapter with an
  empty catalog, each call with its own three callbacks, and the two utterances built.
\<close>

definition helloUtterance :: utterance where
  "helloUtterance =
     newUtterance ''hello'' noOptions (Some ''hello.onStart'') (Some ''hello.onEnd'')
       (Some ''hello.onError'') (catalogTTS [])"

definition worldUtterance :: utterance where
  "worldUtterance =
     newUtterance ''world'' noOptions (Some ''world.onStart'') (Some ''world.onEnd'')
       (Some ''world.onError'') (catalogTTS [])"

definition helloThenWorld :: browserTTS where
  "helloThenWorld =
     speak ''world'' noOptions (Some ''world.onStart'') (Some ''world.onEnd'')
       (Some ''world.onError'') None
       (speak ''hello'' noOptions (Some ''hello.onStart'') (Some ''hello.onEnd'')
          (Some ''hello.onError'') None (catalogTTS []))"

text \<open>An active interview while the adapter is speaking "hello".\<close>

definition speakingPage :: page where
  "speakingPage =
     \<lparr>ui = activeScreen [],
      speechOutput = speak ''hello'' noOptions None None None None (catalogTTS [zira])\<rparr>"

section \<open>Facts about the string functions\<close>

lemma startsWith_iff: "startsWith s p \<longleftrightarrow> (\<exists>r. s = p @ r)"
proof
  assume "startsWith s p"
  then have "s = p @ drop (length p) s"
    by (metis append_take_drop_id startsWith_def)
  then show "\<exists>r. s = p @ r" ..
next
  assume "\<exists>r. s = p @ r"
  then show "startsWith s p" by (auto simp: startsWith_def)
qed

lemma includesStr_iff: "includesStr s t \<longleftrightarrow> (\<exists>p q. s = p @ t @ q)"
proof (induction s)
  case Nil
  then show ?case by auto
next
  case (Cons c cs)
  show ?case
  proof
    assume "includesStr (c # cs) t"
    then consider "startsWith (c # cs) t" | "includesStr cs t" by auto
    then show "\<exists>p q. c # cs = p @ t @ q"
    proof cases
      case 1
      then obtain r where "c # cs = t @ r" by (auto simp: startsWith_iff)
      then have "c # cs = [] @ t @ r" by simp
      then show ?thesis by blast
    next
      case 2
      then obtain p q where "cs = p @ t @ q" using Cons.IH by auto
      then have "c # cs = (c # p) @ t @ q" by simp
      then show ?thesis by blast
    qed
  next
    assume "\<exists>p q. c # cs = p @ t @ q"
    then obtain p q where pq: "c # cs = p @ t @ q" by blast
    show "includesStr (c # cs) t"
    proof (cases p)
      case Nil
      with pq have "startsWith (c # cs) t" by (auto simp: startsWith_iff)
      then show ?thesis by simp
    next
      case (Cons a p')
      with pq have "cs = p' @ t @ q" by simp
      then have "includesStr cs t" using Cons.IH by blast
      then show ?thesis by simp
    qed
  qed
qed

lemma trim_experience:
  "trim ''I have five years of experience'' = ''I have five years of experience''"
  by code_simp

lemma trim_blank: "trim [CHR '' '', CHR 0x09, CHR 0x0A] = []"
  by code_simp

section \<open>Voice selection\<close>

lemma first_of_filter:
  "(case filter P xs of [] \<Rightarrow> d | x # _ \<Rightarrow> Some x) =
   (case find P xs of None \<Rightarrow> d | Some x \<Rightarrow> Some x)"
  by (induction xs) auto

lemma getPreferredVoice_find:
  "getPreferredVoice t requested =
     (case find (\<lambda>v. langMatches requested v \<and> femaleHint v) (voices t) of
        Some v \<Rightarrow> Some v
      | None \<Rightarrow>
          (case find (langMatches requested) (voices t) of
             Some v \<Rightarrow> Some v
           | None \<Rightarrow> (case voices t of v # _ \<Rightarrow> Some v | [] \<Rightarrow> None)))"
  unfolding getPreferredVoice_def Let_def
  by (simp only: first_of_filter)

lemma zira_example: "getPreferredVoice (catalogTTS [generic, zira]) ''en-US'' = Some zira"
  by code_simp

lemma no_french_voice:
  "\<forall>v \<in> set (voices (catalogTTS [generic, zira])). \<not> langMatches ''fr-FR'' v"
  by code_simp

text \<open>
  Claim C7, as the code has it. For every catalog and requested tag the selection is:
  the first voice whose language tag starts with the text before the first hyphen of the
  requested tag and whose lower-cased name contains one of the seven tokens; else the first
  voice whose language tag starts with that text; else the first voice of the catalog; else
  none. The language tags are compared as they are, character by character; only the name
  is lower-cased before the tokens are looked for. For \<open>en-US\<close> over the catalog Generic
  (en-GB), Microsoft Zira (en-US) the result is Microsoft Zira; for \<open>fr-FR\<close> over a
  non-empty catalog with no voice whose tag starts with \<open>fr\<close> it is the catalog's first
  voice.
\<close>

theorem preferred_voice_three_tiers:
  "getPreferredVoice t requested =
     (case find (\<lambda>v. langMatches requested v \<and> femaleHint v) (voices t) of
        Some v \<Rightarrow> Some v
      | None \<Rightarrow>
          (case find (langMatches requested) (voices t) of
             Some v \<Rightarrow> Some v
           | None \<Rightarrow> (case voices t of v # _ \<Rightarrow> Some v | [] \<Rightarrow> None))) \<and>
   (langMatches requested v \<longleftrightarrow>
      (\<exists>rest. lang v = takeWhile (\<lambda>c. c \<noteq> CHR ''-'') requested @ rest)) \<and>
   (femaleHint v \<longleftrightarrow>
      (\<exists>token \<in> set [''female'', ''woman'', ''samantha'', ''karen'', ''zira'', ''susan'',
                       ''allison''].
         \<exists>p q. toLowerCase (name v) = p @ token @ q)) \<and>
   getPreferredVoice (catalogTTS [generic, zira]) ''en-US'' = Some zira \<and>
   ((\<forall>w \<in> set (voices t). \<not> langMatches ''fr-FR'' w) \<and> voices t = v0 # others \<longrightarrow>
      getPreferredVoice t ''fr-FR'' = Some v0)"
proof -
  have fr: "getPreferredVoice t ''fr-FR'' = Some v0"
    if none: "\<forall>w \<in> set (voices t). \<not> langMatches ''fr-FR'' w" and first: "voices t = v0 # others"
  proof -
    from none have "find (\<lambda>v. langMatches ''fr-FR'' v \<and> femaleHint v) (voices t) = None"
      by (auto simp: find_None_iff)
    moreover from none have "find (langMatches ''fr-FR'') (voices t) = None"
      by (auto simp: find_None_iff)
    ultimately show ?thesis
      using first by (simp add: getPreferredVoice_find)
  qed
  have hint: "femaleHint v \<longleftrightarrow>
      (\<exists>token \<in> set [''female'', ''woman'', ''samantha'', ''karen'', ''zira'', ''susan'',
                       ''allison''].
         \<exists>p q. toLowerCase (name v) = p @ token @ q)"
    by (simp add: femaleHint_def includesStr_iff)
  have lm: "langMatches requested v \<longleftrightarrow>
      (\<exists>rest. lang v = takeWhile (\<lambda>c. c \<noteq> CHR ''-'') requested @ rest)"
    by (simp add: langMatches_def primarySubtag_def startsWith_iff)
  show ?thesis
    using fr hint lm zira_example getPreferredVoice_find [of t requested] by blast
qed

theorem preferred_voice_three_tiers_witness:
  "\<not> langMatches ''fr-FR'' generic \<and> \<not> langMatches ''fr-FR'' zira \<and>
   voices (catalogTTS [generic, zira]) = generic # [zira] \<and>
   getPreferredVoice (catalogTTS [generic, zira]) ''fr-FR'' = Some generic \<and>
   getPreferredVoice (catalogTTS [generic, zira]) ''en-US'' = Some zira"
proof -
  have a: "\<forall>w \<in> set (voices (catalogTTS [generic, zira])). \<not> langMatches ''fr-FR'' w"
    by (rule no_french_voice)
  have b: "voices (catalogTTS [generic, zira]) = generic # [zira]"
    by (simp add: catalogTTS_def)
  from a b have c: "\<not> langMatches ''fr-FR'' generic \<and> \<not> langMatches ''fr-FR'' zira"
    by simp
  from preferred_voice_three_tiers
    [of "catalogTTS [generic, zira]" "''fr-FR''" generic generic "[zira]"] a b c
  show ?thesis by blast
qed

text \<open>
  Claim C7, as stated, fails where the requested tag and a voice's tag differ in case only.
  Requested \<open>EN-US\<close> over the catalog Microsoft Hortense (fr-FR), Microsoft Zira (en-US):
  with all matching case-insensitive the first tier selects Microsoft Zira; the code finds
  no voice whose tag starts with \<open>EN\<close> and falls through to the catalog's first voice.
\<close>

theorem language_match_is_case_sensitive:
  "getPreferredVoice (catalogTTS [hortense, zira]) ''EN-US'' = Some hortense \<and>
   selectPreferredVoice_spec [hortense, zira] ''EN-US'' = Some zira \<and>
   getPreferredVoice (catalogTTS [hortense, zira]) ''EN-US'' \<noteq>
     selectPreferredVoice_spec (voices (catalogTTS [hortense, zira])) ''EN-US''"
  by code_simp

section \<open>Speaking and superseding\<close>

lemma stop_result:
  "synthesis t \<Longrightarrow>
   stop t = t\<lparr>currentUtterance := None,
              synthesisCalls := synthesisCalls t @
                (if currentUtterance t = None then [] else [SynthCancel])\<rparr>"
  by (simp add: stop_def synthCall_def)

lemma getPreferredVoice_voices:
  assumes same: "voices t' = voices t"
  shows "getPreferredVoice t' requested = getPreferredVoice t requested"
  unfolding getPreferredVoice_def same ..

lemma newUtterance_voices:
  "voices t' = voices t \<Longrightarrow>
   newUtterance txt options onStart onEnd onError t' =
   newUtterance txt options onStart onEnd onError t"
  using getPreferredVoice_voices [of t' t]
  by (simp add: newUtterance_def Let_def split: option.split)

lemma speak_supported:
  assumes "isSupported t" and "synthesis t"
  shows "speak txt options onStart onEnd onError None t =
           t\<lparr>currentUtterance := Some (newUtterance txt options onStart onEnd onError t),
              synthesisCalls := synthesisCalls t @
                (if currentUtterance t = None then [] else [SynthCancel]) @
                [SynthSpeak (newUtterance txt options onStart onEnd onError t)]\<rparr>"
proof -
  have u: "newUtterance txt options onStart onEnd onError (stop t) =
           newUtterance txt options onStart onEnd onError t"
    by (rule newUtterance_voices) (simp add: stop_def synthCall_def)
  show ?thesis
    unfolding speak_def Let_def u
    using assms by (simp add: stop_result synthCall_def)
qed

lemma helloThenWorld_result:
  "helloThenWorld =
     (catalogTTS [])\<lparr>currentUtterance := Some worldUtterance,
        synthesisCalls := [SynthSpeak helloUtterance, SynthCancel, SynthSpeak worldUtterance]\<rparr>"
proof -
  have a: "isSupported (catalogTTS [])" and b: "synthesis (catalogTTS [])"
    by (simp_all add: catalogTTS_def)
  have first: "speak ''hello'' noOptions (Some ''hello.onStart'') (Some ''hello.onEnd'')
          (Some ''hello.onError'') None (catalogTTS []) =
        (catalogTTS [])\<lparr>currentUtterance := Some helloUtterance,
           synthesisCalls := [SynthSpeak helloUtterance]\<rparr>"
    unfolding speak_supported [OF a b] helloUtterance_def
    by (simp add: catalogTTS_def)
  have a': "isSupported ((catalogTTS [])\<lparr>currentUtterance := Some helloUtterance,
           synthesisCalls := [SynthSpeak helloUtterance]\<rparr>)"
    and b': "synthesis ((catalogTTS [])\<lparr>currentUtterance := Some helloUtterance,
           synthesisCalls := [SynthSpeak helloUtterance]\<rparr>)"
    by (simp_all add: catalogTTS_def)
  have u: "newUtterance ''world'' noOptions (Some ''world.onStart'') (Some ''world.onEnd'')
          (Some ''world.onError'')
          ((catalogTTS [])\<lparr>currentUtterance := Some helloUtterance,
             synthesisCalls := [SynthSpeak helloUtterance]\<rparr>) = worldUtterance"
    unfolding worldUtterance_def by (rule newUtterance_voices) simp
  show ?thesis
    unfolding helloThenWorld_def first speak_supported [OF a' b'] u
    by simp
qed

lemma example_utterance_fields:
  "utt_text helloUtterance = ''hello''" "cb_onEnd helloUtterance = Some ''hello.onEnd''"
  "cb_onError helloUtterance = Some ''hello.onError''"
  "utt_text worldUtterance = ''world''" "cb_onEnd worldUtterance = Some ''world.onEnd''"
  "cb_onError worldUtterance = Some ''world.onError''"
  by (simp_all add: helloUtterance_def worldUtterance_def newUtterance_def Let_def)

text \<open>
  Claim C6, as the code has it. On a supported adapter whose platform call returns, every
  \<^verbatim>\<open>speak\<close> cancels on the platform the utterance held in the current slot, if there is
  one, before it hands the new utterance over, and invokes no callback itself. After
  \<^verbatim>\<open>speak(h)\<close> followed at once by \<^verbatim>\<open>speak(w)\<close> the platform has received \<open>h\<close>, one
  cancel and \<open>w\<close>, in this order, the slot holds \<open>w\<close>, and no callback has fired; an end
  event (an error event) then delivered to \<open>w\<close> fires exactly \<open>w\<close>'s \<^verbatim>\<open>onEnd\<close>
  (\<^verbatim>\<open>onError\<close>) once and resolves \<open>w\<close>'s promise. Nothing is said about events the
  platform delivers to the superseded utterance.
\<close>

theorem speak_supersedes_current_utterance:
  assumes "isSupported t" and "synthesis t"
  shows
    "synthesisCalls
       (speak w ow (Some ws) (Some we) (Some wr) None (speak h oh hs he hr None t)) =
       synthesisCalls t @ (if currentUtterance t = None then [] else [SynthCancel]) @
         [SynthSpeak (newUtterance h oh hs he hr t), SynthCancel,
          SynthSpeak (newUtterance w ow (Some ws) (Some we) (Some wr) t)] \<and>
     currentUtterance
       (speak w ow (Some ws) (Some we) (Some wr) None (speak h oh hs he hr None t)) =
       Some (newUtterance w ow (Some ws) (Some we) (Some wr) t) \<and>
     notifications
       (speak w ow (Some ws) (Some we) (Some wr) None (speak h oh hs he hr None t)) =
       notifications t \<and>
     notifications
       (handleEvent (newUtterance w ow (Some ws) (Some we) (Some wr) t) EvEnd
          (speak w ow (Some ws) (Some we) (Some wr) None (speak h oh hs he hr None t))) =
       notifications t @ [Invoked we, Resolved w \<lparr>success = True, error_message = None\<rparr>] \<and>
     notifications
       (handleEvent (newUtterance w ow (Some ws) (Some we) (Some wr) t) (EvError code)
          (speak w ow (Some ws) (Some we) (Some wr) None (speak h oh hs he hr None t))) =
       notifications t @
         [InvokedWith wr (''Speech synthesis error: '' @ code),
          Resolved w \<lparr>success = False,
            error_message = Some (''Speech synthesis error: '' @ code)\<rparr>]"
proof -
  let ?t1 = "speak h oh hs he hr None t"
  have t1: "?t1 = t\<lparr>currentUtterance := Some (newUtterance h oh hs he hr t),
              synthesisCalls := synthesisCalls t @
                (if currentUtterance t = None then [] else [SynthCancel]) @
                [SynthSpeak (newUtterance h oh hs he hr t)]\<rparr>"
    using assms by (rule speak_supported)
  have sup1: "isSupported ?t1" and syn1: "synthesis ?t1"
    using assms by (simp_all add: t1)
  have u: "newUtterance w ow (Some ws) (Some we) (Some wr) ?t1 =
           newUtterance w ow (Some ws) (Some we) (Some wr) t"
    by (rule newUtterance_voices) (simp add: t1)
  have t2: "speak w ow (Some ws) (Some we) (Some wr) None ?t1 =
        ?t1\<lparr>currentUtterance := Some (newUtterance w ow (Some ws) (Some we) (Some wr) t),
              synthesisCalls := synthesisCalls ?t1 @
                (if currentUtterance ?t1 = None then [] else [SynthCancel]) @
                [SynthSpeak (newUtterance w ow (Some ws) (Some we) (Some wr) t)]\<rparr>"
    using speak_supported [OF sup1 syn1, of w ow "Some ws" "Some we" "Some wr"] u by simp
  have cbs: "cb_onEnd (newUtterance w ow (Some ws) (Some we) (Some wr) t) = Some we"
    "cb_onError (newUtterance w ow (Some ws) (Some we) (Some wr) t) = Some wr"
    "utt_text (newUtterance w ow (Some ws) (Some we) (Some wr) t) = w"
    by (simp_all add: newUtterance_def Let_def)
  show ?thesis
    unfolding t2
    by (simp add: t1 cbs invoke_def invokeWith_def notify_def Let_def)
qed

theorem speak_supersedes_current_utterance_witness:
  "isSupported (catalogTTS []) \<and> synthesis (catalogTTS []) \<and>
   synthesisCalls helloThenWorld =
     [SynthSpeak helloUtterance, SynthCancel, SynthSpeak worldUtterance] \<and>
   currentUtterance helloThenWorld = Some worldUtterance \<and>
   notifications helloThenWorld = [] \<and>
   notifications (handleEvent worldUtterance EvEnd helloThenWorld) =
     [Invoked ''world.onEnd'', Resolved ''world'' \<lparr>success = True, error_message = None\<rparr>]"
proof -
  have a: "isSupported (catalogTTS [])" and b: "synthesis (catalogTTS [])"
    by (simp_all add: catalogTTS_def)
  have c: "currentUtterance (catalogTTS []) = None" "synthesisCalls (catalogTTS []) = []"
    "notifications (catalogTTS []) = []"
    by (simp_all add: catalogTTS_def)
  have d: "speak ''world'' noOptions (Some ''world.onStart'') (Some ''world.onEnd'')
       (Some ''world.onError'') None
       (speak ''hello'' noOptions (Some ''hello.onStart'') (Some ''hello.onEnd'')
          (Some ''hello.onError'') None (catalogTTS [])) = helloThenWorld"
    by (simp only: helloThenWorld_def)
  have e: "newUtterance ''hello'' noOptions (Some ''hello.onStart'') (Some ''hello.onEnd'')
       (Some ''hello.onError'') (catalogTTS []) = helloUtterance"
    "newUtterance ''world'' noOptions (Some ''world.onStart'') (Some ''world.onEnd'')
       (Some ''world.onError'') (catalogTTS []) = worldUtterance"
    by (simp_all only: helloUtterance_def worldUtterance_def)
  from speak_supersedes_current_utterance [OF a b, of "''world''" noOptions "''world.onStart''"
      "''world.onEnd''" "''world.onError''" "''hello''" noOptions "Some ''hello.onStart''"
      "Some ''hello.onEnd''" "Some ''hello.onError''"]
  show ?thesis
    unfolding d e c using a b by simp
qed

text \<open>
  Claim C6, as stated, fails: the handlers of the superseded utterance stay attached, so
  an event the platform delivers to it after the cancel still runs them. With
  \<^verbatim>\<open>speak("hello")\<close> followed at once by \<^verbatim>\<open>speak("world")\<close>, then the platform's error
  event \<open>interrupted\<close> for the cancelled "hello" and the end event for "world", the
  \<^verbatim>\<open>onError\<close> callback of "hello" fires once.
\<close>

theorem superseded_utterance_callback_fires:
  "synthesisCalls helloThenWorld =
     [SynthSpeak helloUtterance, SynthCancel, SynthSpeak worldUtterance] \<and>
   notifications
     (handleEvent worldUtterance EvEnd
        (handleEvent helloUtterance (EvError ''interrupted'') helloThenWorld)) =
     [InvokedWith ''hello.onError'' ''Speech synthesis error: interrupted'',
      Resolved ''hello''
        \<lparr>success = False, error_message = Some ''Speech synthesis error: interrupted''\<rparr>,
      Invoked ''world.onEnd'',
      Resolved ''world'' \<lparr>success = True, error_message = None\<rparr>] \<and>
   count_list
     (notifications
        (handleEvent worldUtterance EvEnd
           (handleEvent helloUtterance (EvError ''interrupted'') helloThenWorld)))
     (InvokedWith ''hello.onError'' ''Speech synthesis error: interrupted'') = 1"
proof -
  have n: "notifications
     (handleEvent worldUtterance EvEnd
        (handleEvent helloUtterance (EvError ''interrupted'') helloThenWorld)) =
     [InvokedWith ''hello.onError'' ''Speech synthesis error: interrupted'',
      Resolved ''hello''
        \<lparr>success = False, error_message = Some ''Speech synthesis error: interrupted''\<rparr>,
      Invoked ''world.onEnd'',
      Resolved ''world'' \<lparr>success = True, error_message = None\<rparr>]"
    by (simp add: helloThenWorld_result example_utterance_fields invoke_def invokeWith_def
        notify_def catalogTTS_def Let_def)
  have c: "synthesisCalls helloThenWorld =
     [SynthSpeak helloUtterance, SynthCancel, SynthSpeak worldUtterance]"
    by (simp add: helloThenWorld_result)
  show ?thesis
    unfolding n using c by simp
qed

text \<open>
  The same late event also empties the current slot while "world" is the utterance in it,
  so the next \<^verbatim>\<open>speak\<close> hands its utterance to the platform without a cancel.
\<close>

lemma late_event_clears_current_slot:
  "currentUtterance helloThenWorld = Some worldUtterance \<and>
   currentUtterance (handleEvent helloUtterance (EvError ''interrupted'') helloThenWorld) = None \<and>
   synthesisCalls
     (speak ''again'' noOptions None None None None
        (handleEvent helloUtterance (EvError ''interrupted'') helloThenWorld)) =
     [SynthSpeak helloUtterance, SynthCancel, SynthSpeak worldUtterance,
      SynthSpeak (newUtterance ''again'' noOptions None None None (catalogTTS []))]"
proof -
  let ?t = "handleEvent helloUtterance (EvError ''interrupted'') helloThenWorld"
  have fields: "isSupported ?t" "synthesis ?t" "currentUtterance ?t = None"
    "synthesisCalls ?t = [SynthSpeak helloUtterance, SynthCancel, SynthSpeak worldUtterance]"
    "voices ?t = voices (catalogTTS [])"
    by (simp_all add: helloThenWorld_result invokeWith_def notify_def catalogTTS_def Let_def
        split: option.split)
  have u: "newUtterance ''again'' noOptions None None None ?t =
           newUtterance ''again'' noOptions None None None (catalogTTS [])"
    by (rule newUtterance_voices) (rule fields)
  have before: "currentUtterance helloThenWorld = Some worldUtterance"
    by (simp add: helloThenWorld_result)
  have after: "synthesisCalls (speak ''again'' noOptions None None None None ?t) =
     [SynthSpeak helloUtterance, SynthCancel, SynthSpeak worldUtterance,
      SynthSpeak (newUtterance ''again'' noOptions None None None (catalogTTS []))]"
    unfolding speak_supported [OF fields(1,2)] u
    by (simp only: fields(3,4)) simp
  from before fields(3) after show ?thesis by blast
qed

section \<open>Session lifecycle\<close>

text \<open>
  In the component the session is shown as active exactly when \<open>isInterviewActive\<close> holds
  (the pause button replaces the start button), as paused when it does not hold and
  \<open>startTime\<close> is set (the start button reads "Resume"), and as failed when
  \<open>connectionStatus\<close> is \<open>error\<close>. The session has ended once the parent's
  \<^verbatim>\<open>onEndInterview\<close> has been called. The theorems below speak about these variables.
\<close>

lemma endInterview_result:
  "endInterview ended s =
     s\<lparr>isInterviewActive := False,
        calls := calls s @ [StopListening, StopAudio, DisconnectLiveKit] @
          (case voiceSession s of
             None \<Rightarrow> []
           | Some v \<Rightarrow> ServiceEnd (sessionId v) #
               (case ended of
                  Fulfilled _ \<Rightarrow> []
                | Rejected e \<Rightarrow> [ConsoleError ''Error ending interview:'' e])) @
          [OnEndInterview]\<rparr>"
  by (simp add: endInterview_def emit_def Let_def split: option.split settled.split)

lemma pauseInterview_result:
  "pauseInterview paused s =
     s\<lparr>isInterviewActive := False,
        calls := calls s @ [StopListening, StopAudio] @
          (case voiceSession s of
             None \<Rightarrow> []
           | Some v \<Rightarrow> ServicePause (sessionId v) #
               (case paused of
                  Fulfilled _ \<Rightarrow> []
                | Rejected e \<Rightarrow> [ConsoleError ''Error pausing interview:'' e]))\<rparr>"
  by (simp add: pauseInterview_def emit_def Let_def split: option.split settled.split)

lemma pauseRepeatedly_result:
  "\<not> isInterviewActive s \<Longrightarrow>
   pauseRepeatedly rs s =
     s\<lparr>calls := calls s @
          concat (map (\<lambda>r. [StopListening, StopAudio] @
                    (case voiceSession s of
                       None \<Rightarrow> []
                     | Some v \<Rightarrow> ServicePause (sessionId v) #
                         (case r of
                            Fulfilled _ \<Rightarrow> []
                          | Rejected e \<Rightarrow> [ConsoleError ''Error pausing interview:'' e]))) rs)\<rparr>"
proof (induction rs arbitrary: s)
  case Nil
  then show ?case by simp
next
  case (Cons r rs)
  let ?s1 = "pauseInterview r s"
  have inactive: "\<not> isInterviewActive ?s1"
    by (simp add: pauseInterview_result)
  have same: "s\<lparr>isInterviewActive := False\<rparr> = s"
    using Cons.prems by simp
  have session: "voiceSession ?s1 = voiceSession s"
    by (simp add: pauseInterview_result)
  show ?case
    using Cons.IH [OF inactive] same session
    by (simp add: pauseInterview_result)
qed

text \<open>
  Claim C1, as the code has it. From every state, \<^verbatim>\<open>endInterview\<close> marks the interview
  inactive and calls, in this order, the stop of speech-input listening, the stop of the
  local audio track, the transport disconnect, the remote end-session request when a
  session handle exists, and the parent's \<^verbatim>\<open>onEndInterview\<close>. A rejection of the remote
  request is logged and does not prevent the call of \<^verbatim>\<open>onEndInterview\<close>. The three local
  calls are made unguarded, one after the other. The speech output adapter is left as it
  is.
\<close>

theorem end_runs_every_release_call:
  "ui (pageEndInterview ended p) =
     (ui p)\<lparr>isInterviewActive := False,
            calls := calls (ui p) @ [StopListening, StopAudio, DisconnectLiveKit] @
              (case voiceSession (ui p) of
                 None \<Rightarrow> []
               | Some v \<Rightarrow> ServiceEnd (sessionId v) #
                   (case ended of
                      Fulfilled _ \<Rightarrow> []
                    | Rejected e \<Rightarrow> [ConsoleError ''Error ending interview:'' e])) @
              [OnEndInterview]\<rparr> \<and>
   speechOutput (pageEndInterview ended p) = speechOutput p"
  by (simp add: pageEndInterview_def endInterview_result)

theorem end_runs_every_release_call_witness:
  "calls (ui (pageEndInterview (Rejected ''offline'') speakingPage)) =
     [StopListening, StopAudio, DisconnectLiveKit, ServiceEnd ''session-1'',
      ConsoleError ''Error ending interview:'' ''offline'', OnEndInterview] \<and>
   \<not> isInterviewActive (ui (pageEndInterview (Rejected ''offline'') speakingPage)) \<and>
   speechOutput (pageEndInterview (Rejected ''offline'') speakingPage) =
     speechOutput speakingPage"
  using end_runs_every_release_call [of "Rejected ''offline''" speakingPage]
  by (simp add: speakingPage_def activeScreen_def exampleSession_def)

text \<open>
  Claim C1, as stated, fails for the in-flight utterance: with the interview active and
  the adapter speaking "hello", after \<^verbatim>\<open>endInterview\<close> the adapter's current slot still
  holds the utterance and no cancel has reached the platform.
\<close>

theorem end_leaves_utterance_in_flight:
  "currentUtterance (speechOutput (pageEndInterview (Fulfilled ()) speakingPage)) \<noteq> None \<and>
   SynthCancel \<notin>
     set (synthesisCalls (speechOutput (pageEndInterview (Fulfilled ()) speakingPage)))"
  by (simp add: pageEndInterview_def speakingPage_def speak_def catalogTTS_def stop_def
      synthCall_def Let_def)

text \<open>
  Claim C2, as the code has it. When the remote session start rejects, the connection
  status becomes \<open>error\<close>, the thinking flag is cleared, the error is logged, no transport
  connect is attempted, and no session handle is stored: everything else is as before.
  When the session start resolves and the transport connect rejects, the connection status
  becomes \<open>error\<close>, the thinking flag is cleared and the error is logged; the session
  handle and the first question stay stored, and no end-session request is made. In both
  cases the interview is not marked active.
\<close>

theorem start_failure_sets_error:
  "startVoiceInterview (Rejected e) connectedLK now s =
     s\<lparr>isThinking := False, connectionStatus := error,
        calls := calls s @ [ServiceStart (participantName s),
          ConsoleError ''Error starting voice interview:'' e]\<rparr> \<and>
   startVoiceInterview (Fulfilled session) (Rejected e) now s =
     s\<lparr>isThinking := False, connectionStatus := error,
        voiceSession := Some session,
        currentQuestion := (case firstQuestion session of Some q \<Rightarrow> q | None \<Rightarrow> []),
        calls := calls s @ [ServiceStart (participantName s), ConnectLiveKit,
          ConsoleError ''Error starting voice interview:'' e]\<rparr>"
  by (simp add: startVoiceInterview_def emit_def Let_def)

theorem start_failure_sets_error_witness:
  "startVoiceInterview (Rejected ''no server'') (Fulfilled ()) 1000 idleScreen =
     idleScreen\<lparr>connectionStatus := error,
        calls := [ServiceStart ''participant-1'',
          ConsoleError ''Error starting voice interview:'' ''no server'']\<rparr> \<and>
   connectionStatus
     (startVoiceInterview (Fulfilled exampleSession) (Rejected ''no room'') 1000 idleScreen) =
     error \<and>
   \<not> isInterviewActive
     (startVoiceInterview (Fulfilled exampleSession) (Rejected ''no room'') 1000 idleScreen)"
  using start_failure_sets_error [of "''no server''" "Fulfilled ()" 1000 idleScreen]
    start_failure_sets_error [of "''no room''" "Fulfilled ()" 1000 idleScreen exampleSession]
  by (simp add: idleScreen_def)

text \<open>
  Claim C2, as stated, fails for the cleanup: when the session was created and the
  transport connect rejects, no end-session request is made and the handle stays stored.
\<close>

theorem start_connect_failure_keeps_session:
  "ServiceEnd ''session-1'' \<notin>
     set (calls (startVoiceInterview (Fulfilled exampleSession) (Rejected ''connect failed'')
                   1000 idleScreen)) \<and>
   voiceSession (startVoiceInterview (Fulfilled exampleSession) (Rejected ''connect failed'')
                   1000 idleScreen) = Some exampleSession"
  by (simp add: startVoiceInterview_def emit_def Let_def idleScreen_def)

text \<open>
  Claim C4, as the code has it. For every sequence of \<^verbatim>\<open>pauseInterview\<close> calls on an
  interview that is not active, every state variable keeps its value, so the interview
  stays paused; each of the calls stops speech-input listening and local audio again and,
  when a session handle exists, notifies the remote session client again (logging a
  rejection).
\<close>

theorem pause_while_paused_repeats_teardown:
  assumes "\<not> isInterviewActive s"
  shows "pauseRepeatedly rs s =
     s\<lparr>calls := calls s @
          concat (map (\<lambda>r. [StopListening, StopAudio] @
                    (case voiceSession s of
                       None \<Rightarrow> []
                     | Some v \<Rightarrow> ServicePause (sessionId v) #
                         (case r of
                            Fulfilled _ \<Rightarrow> []
                          | Rejected e \<Rightarrow> [ConsoleError ''Error pausing interview:'' e]))) rs)\<rparr>"
  using assms by (rule pauseRepeatedly_result)

theorem pause_while_paused_repeats_teardown_witness:
  "\<not> isInterviewActive pausedScreen \<and>
   pauseRepeatedly [Fulfilled (), Rejected ''offline''] pausedScreen =
     pausedScreen\<lparr>calls := [StopListening, StopAudio, ServicePause ''session-1'',
       StopListening, StopAudio, ServicePause ''session-1'',
       ConsoleError ''Error pausing interview:'' ''offline'']\<rparr>"
proof -
  have a: "\<not> isInterviewActive pausedScreen"
    by (simp add: pausedScreen_def)
  from pause_while_paused_repeats_teardown [OF a, of "[Fulfilled (), Rejected ''offline'']"] a
  show ?thesis by (simp add: pausedScreen_def activeScreen_def exampleSession_def)
qed

text \<open>
  Claim C4, as stated, fails for the teardown calls: a first \<^verbatim>\<open>pauseInterview\<close> on the
  active interview leaves it paused, and the second one makes the three calls again.
\<close>

theorem second_pause_repeats_teardown:
  "\<not> isInterviewActive (pauseInterview (Fulfilled ()) (activeScreen [])) \<and>
   calls (pauseInterview (Fulfilled ()) (activeScreen [])) =
     [StopListening, StopAudio, ServicePause ''session-1''] \<and>
   calls (pauseInterview (Fulfilled ()) (pauseInterview (Fulfilled ()) (activeScreen []))) =
     [StopListening, StopAudio, ServicePause ''session-1'',
      StopListening, StopAudio, ServicePause ''session-1''] \<and>
   pauseInterview (Fulfilled ()) (pauseInterview (Fulfilled ()) (activeScreen [])) \<noteq>
     pauseInterview (Fulfilled ()) (activeScreen [])"
proof -
  have second: "calls (pauseInterview (Fulfilled ())
        (pauseInterview (Fulfilled ()) (activeScreen []))) =
     [StopListening, StopAudio, ServicePause ''session-1'',
      StopListening, StopAudio, ServicePause ''session-1'']"
    by (simp add: pauseInterview_result activeScreen_def exampleSession_def)
  have first: "calls (pauseInterview (Fulfilled ()) (activeScreen [])) =
     [StopListening, StopAudio, ServicePause ''session-1'']"
    by (simp add: pauseInterview_result activeScreen_def exampleSession_def)
  have paused: "\<not> isInterviewActive (pauseInterview (Fulfilled ()) (activeScreen []))"
    by (simp add: pauseInterview_result)
  have "calls (pauseInterview (Fulfilled ()) (pauseInterview (Fulfilled ()) (activeScreen []))) \<noteq>
        calls (pauseInterview (Fulfilled ()) (activeScreen []))"
    unfolding first second by simp
  then have "pauseInterview (Fulfilled ()) (pauseInterview (Fulfilled ()) (activeScreen [])) \<noteq>
        pauseInterview (Fulfilled ()) (activeScreen [])"
    by metis
  with first second paused show ?thesis by blast
qed

text \<open>
  Claim C5, as the code has it. When \<^verbatim>\<open>resumeInterview\<close> is called with a session handle
  and the remote resume rejects, or the remote resume resolves and the re-acquisition of
  local audio rejects, the failure is logged, the interview is marked active, and every
  other state variable, the connection status among them, keeps its value; after a
  rejected remote resume the local audio is not requested.
\<close>

theorem resume_failure_is_only_logged:
  assumes "voiceSession s = Some v"
  shows "resumeInterview (Rejected e) audioStarted s =
           s\<lparr>isInterviewActive := True,
              calls := calls s @ [ServiceResume (sessionId v),
                ConsoleError ''Error resuming interview:'' e]\<rparr> \<and>
         resumeInterview (Fulfilled ()) (Rejected e) s =
           s\<lparr>isInterviewActive := True,
              calls := calls s @ [ServiceResume (sessionId v), StartAudio,
                ConsoleError ''Error resuming interview:'' e]\<rparr>"
  using assms by (simp add: resumeInterview_def emit_def)

theorem resume_failure_is_only_logged_witness:
  "voiceSession pausedScreen = Some exampleSession \<and>
   resumeInterview (Rejected ''remote down'') (Fulfilled ()) pausedScreen =
     pausedScreen\<lparr>isInterviewActive := True,
        calls := [ServiceResume ''session-1'',
          ConsoleError ''Error resuming interview:'' ''remote down'']\<rparr> \<and>
   resumeInterview (Fulfilled ()) (Rejected ''remote down'') pausedScreen =
     pausedScreen\<lparr>isInterviewActive := True,
        calls := [ServiceResume ''session-1'', StartAudio,
          ConsoleError ''Error resuming interview:'' ''remote down'']\<rparr>"
proof -
  have a: "voiceSession pausedScreen = Some exampleSession"
    by (simp add: pausedScreen_def activeScreen_def)
  from resume_failure_is_only_logged [OF a, of "''remote down''" "Fulfilled ()"] a
  show ?thesis by (simp add: pausedScreen_def activeScreen_def exampleSession_def)
qed

text \<open>
  Claim C5, as stated, fails: from the paused interview, a resume whose remote call
  rejects, and one whose audio re-acquisition rejects, both end with the interview marked
  active and the connection status not \<open>error\<close>.
\<close>

theorem resume_failure_marks_active:
  "\<not> isInterviewActive pausedScreen \<and>
   isInterviewActive (resumeInterview (Rejected ''remote down'') (Fulfilled ()) pausedScreen) \<and>
   connectionStatus (resumeInterview (Rejected ''remote down'') (Fulfilled ()) pausedScreen) \<noteq>
     error \<and>
   isInterviewActive (resumeInterview (Fulfilled ()) (Rejected ''no microphone'') pausedScreen) \<and>
   connectionStatus (resumeInterview (Fulfilled ()) (Rejected ''no microphone'') pausedScreen) \<noteq>
     error"
  by (simp add: resumeInterview_def emit_def pausedScreen_def activeScreen_def)

section \<open>Response submission\<close>

text \<open>
  Claim C3. When the remote call \<^verbatim>\<open>processVoiceResponse\<close> rejects, the interview stays
  active, the transcript, the current question, the session handle and the connection
  status are what they were, the thinking flag is cleared, and the only calls made are the
  stop of listening, the remote submission and the log of the error: the session is not
  ended and the transcript is not reset, so the same submission can be made again.
\<close>

theorem failed_submission_keeps_transcript:
  assumes "isInterviewActive s" and "trim (transcript s) \<noteq> []" and "voiceSession s = Some v"
  shows "isInterviewActive (submitVoiceResponse (Rejected e) simulated ended s) \<and>
         transcript (submitVoiceResponse (Rejected e) simulated ended s) = transcript s \<and>
         currentQuestion (submitVoiceResponse (Rejected e) simulated ended s) = currentQuestion s \<and>
         voiceSession (submitVoiceResponse (Rejected e) simulated ended s) = voiceSession s \<and>
         connectionStatus (submitVoiceResponse (Rejected e) simulated ended s) =
           connectionStatus s \<and>
         \<not> isThinking (submitVoiceResponse (Rejected e) simulated ended s) \<and>
         calls (submitVoiceResponse (Rejected e) simulated ended s) =
           calls s @ [StopListening, ServiceProcess (sessionId v) (trim (transcript s)),
             ConsoleError ''Error submitting voice response:'' e]"
  using assms by (simp add: submitVoiceResponse_def emit_def)

theorem failed_submission_keeps_transcript_witness:
  "isInterviewActive (activeScreen ''I have five years of experience'') \<and>
   trim (transcript (activeScreen ''I have five years of experience'')) \<noteq> [] \<and>
   voiceSession (activeScreen ''I have five years of experience'') = Some exampleSession \<and>
   isInterviewActive (submitVoiceResponse (Rejected ''503'') (Fulfilled ()) (Fulfilled ())
       (activeScreen ''I have five years of experience'')) \<and>
   transcript (submitVoiceResponse (Rejected ''503'') (Fulfilled ()) (Fulfilled ())
       (activeScreen ''I have five years of experience'')) = ''I have five years of experience'' \<and>
   calls (submitVoiceResponse (Rejected ''503'') (Fulfilled ()) (Fulfilled ())
       (activeScreen ''I have five years of experience'')) =
     [StopListening, ServiceProcess ''session-1'' ''I have five years of experience'',
      ConsoleError ''Error submitting voice response:'' ''503'']"
proof -
  have a: "isInterviewActive (activeScreen ''I have five years of experience'')"
    by (simp add: activeScreen_def)
  have b: "trim (transcript (activeScreen ''I have five years of experience'')) \<noteq> []"
    by (simp add: activeScreen_def trim_experience)
  have c: "voiceSession (activeScreen ''I have five years of experience'') = Some exampleSession"
    by (simp add: activeScreen_def)
  from failed_submission_keeps_transcript [OF a b c, of "''503''" "Fulfilled ()" "Fulfilled ()"]
    a b c
  show ?thesis by (simp add: activeScreen_def exampleSession_def trim_experience)
qed

text \<open>
  Claim C8, as the code has it. While the interview is active, a submission whose remote
  call resolves with \<open>isComplete = false\<close> and a next question, and whose update of the
  simulator (\<^verbatim>\<open>simulator.submitResponse\<close>, awaited in the same \<^verbatim>\<open>try\<close> block before the
  result is looked at) resolves as well, sets the current question to that question's
  text, resets the transcript to empty and leaves the interview active; the session is not
  ended.
\<close>

theorem next_question_resets_transcript:
  assumes "isInterviewActive s" and "trim (transcript s) \<noteq> []" and "voiceSession s = Some v"
    and "\<not> isComplete result" and "nextQuestion result = Some q"
  shows "currentQuestion (submitVoiceResponse (Fulfilled result) (Fulfilled ()) ended s) =
           question q \<and>
         transcript (submitVoiceResponse (Fulfilled result) (Fulfilled ()) ended s) = [] \<and>
         isInterviewActive (submitVoiceResponse (Fulfilled result) (Fulfilled ()) ended s) \<and>
         voiceSession (submitVoiceResponse (Fulfilled result) (Fulfilled ()) ended s) =
           voiceSession s \<and>
         connectionStatus (submitVoiceResponse (Fulfilled result) (Fulfilled ()) ended s) =
           connectionStatus s \<and>
         \<not> isThinking (submitVoiceResponse (Fulfilled result) (Fulfilled ()) ended s) \<and>
         calls (submitVoiceResponse (Fulfilled result) (Fulfilled ()) ended s) =
           calls s @ [StopListening, ServiceProcess (sessionId v) (trim (transcript s)),
             SimulatorSubmit (trim (transcript s)), ResetTranscript]"
  using assms by (simp add: submitVoiceResponse_def emit_def resetTranscript_def)

theorem next_question_resets_transcript_witness:
  "isInterviewActive (activeScreen ''I have five years of experience'') \<and>
   trim (transcript (activeScreen ''I have five years of experience'')) \<noteq> [] \<and>
   currentQuestion
     (submitVoiceResponse
        (Fulfilled \<lparr>isComplete = False,
           nextQuestion = Some \<lparr>question = ''Tell me about a challenge you faced.''\<rparr>\<rparr>)
        (Fulfilled ()) (Fulfilled ()) (activeScreen ''I have five years of experience'')) =
     ''Tell me about a challenge you faced.'' \<and>
   transcript
     (submitVoiceResponse
        (Fulfilled \<lparr>isComplete = False,
           nextQuestion = Some \<lparr>question = ''Tell me about a challenge you faced.''\<rparr>\<rparr>)
        (Fulfilled ()) (Fulfilled ()) (activeScreen ''I have five years of experience'')) = [] \<and>
   isInterviewActive
     (submitVoiceResponse
        (Fulfilled \<lparr>isComplete = False,
           nextQuestion = Some \<lparr>question = ''Tell me about a challenge you faced.''\<rparr>\<rparr>)
        (Fulfilled ()) (Fulfilled ()) (activeScreen ''I have five years of experience''))"
proof -
  have a: "isInterviewActive (activeScreen ''I have five years of experience'')"
    by (simp add: activeScreen_def)
  have b: "trim (transcript (activeScreen ''I have five years of experience'')) \<noteq> []"
    by (simp add: activeScreen_def trim_experience)
  have c: "voiceSession (activeScreen ''I have five years of experience'') = Some exampleSession"
    by (simp add: activeScreen_def)
  have d: "\<not> isComplete \<lparr>isComplete = False,
             nextQuestion = Some \<lparr>question = ''Tell me about a challenge you faced.''\<rparr>\<rparr>"
    by simp
  have e: "nextQuestion \<lparr>isComplete = False,
             nextQuestion = Some \<lparr>question = ''Tell me about a challenge you faced.''\<rparr>\<rparr> =
           Some \<lparr>question = ''Tell me about a challenge you faced.''\<rparr>"
    by simp
  from next_question_resets_transcript [OF a b c d e, of "Fulfilled ()"] a b
  show ?thesis by simp
qed

text \<open>
  Claim C8, as stated, fails when the remote result alone is as the claim describes: with
  the remote call resolved with \<open>isComplete = false\<close> and the next question "Tell me about
  a challenge you faced.", and the update of the simulator rejecting, the handler's catch
  runs before the result is looked at; the current question and the transcript are what
  they were and the error is logged.
\<close>

theorem simulator_rejection_skips_next_question:
  "isInterviewActive (activeScreen ''I have five years of experience'') \<and>
   currentQuestion
     (submitVoiceResponse
        (Fulfilled \<lparr>isComplete = False,
           nextQuestion = Some \<lparr>question = ''Tell me about a challenge you faced.''\<rparr>\<rparr>)
        (Rejected ''simulator failed'') (Fulfilled ())
        (activeScreen ''I have five years of experience'')) = ''Tell me about yourself.'' \<and>
   currentQuestion
     (submitVoiceResponse
        (Fulfilled \<lparr>isComplete = False,
           nextQuestion = Some \<lparr>question = ''Tell me about a challenge you faced.''\<rparr>\<rparr>)
        (Rejected ''simulator failed'') (Fulfilled ())
        (activeScreen ''I have five years of experience'')) \<noteq>
     ''Tell me about a challenge you faced.'' \<and>
   transcript
     (submitVoiceResponse
        (Fulfilled \<lparr>isComplete = False,
           nextQuestion = Some \<lparr>question = ''Tell me about a challenge you faced.''\<rparr>\<rparr>)
        (Rejected ''simulator failed'') (Fulfilled ())
        (activeScreen ''I have five years of experience'')) =
     ''I have five years of experience'' \<and>
   calls
     (submitVoiceResponse
        (Fulfilled \<lparr>isComplete = False,
           nextQuestion = Some \<lparr>question = ''Tell me about a challenge you faced.''\<rparr>\<rparr>)
        (Rejected ''simulator failed'') (Fulfilled ())
        (activeScreen ''I have five years of experience'')) =
     [StopListening, ServiceProcess ''session-1'' ''I have five years of experience'',
      SimulatorSubmit ''I have five years of experience'',
      ConsoleError ''Error submitting voice response:'' ''simulator failed'']"
  by (simp add: submitVoiceResponse_def emit_def activeScreen_def exampleSession_def
      trim_experience)

text \<open>
  Claim C9. A submission whose trimmed transcript is empty, or made without a session
  handle, returns at once: the state, the transcript and the call log are what they were,
  so no remote call is made and nothing is reported as an error.
\<close>

theorem blank_submission_is_noop:
  "trim (transcript s) = [] \<or> voiceSession s = None \<Longrightarrow>
   submitVoiceResponse processed simulated ended s = s"
  by (simp add: submitVoiceResponse_def)

theorem blank_submission_is_noop_witness:
  "trim (transcript (activeScreen [CHR '' '', CHR 0x09, CHR 0x0A])) = [] \<and>
   voiceSession (idleScreen\<lparr>transcript := ''hello''\<rparr>) = None \<and>
   submitVoiceResponse (Fulfilled \<lparr>isComplete = True, nextQuestion = None\<rparr>) (Fulfilled ())
     (Fulfilled ()) (activeScreen [CHR '' '', CHR 0x09, CHR 0x0A]) =
     activeScreen [CHR '' '', CHR 0x09, CHR 0x0A] \<and>
   calls (submitVoiceResponse (Fulfilled \<lparr>isComplete = True, nextQuestion = None\<rparr>)
     (Fulfilled ()) (Fulfilled ()) (idleScreen\<lparr>transcript := ''hello''\<rparr>)) = []"
proof -
  have blank: "trim (transcript (activeScreen [CHR '' '', CHR 0x09, CHR 0x0A])) = []"
    by (simp add: activeScreen_def trim_blank)
  have nosession: "voiceSession (idleScreen\<lparr>transcript := ''hello''\<rparr>) = None"
    by (simp add: idleScreen_def)
  from blank nosession
    blank_submission_is_noop [of "activeScreen [CHR '' '', CHR 0x09, CHR 0x0A]"]
    blank_submission_is_noop [of "idleScreen\<lparr>transcript := ''hello''\<rparr>"]
  show ?thesis by (simp add: idleScreen_def)
qed

text \<open>
  Claim C10. While the interview is active, a submission that succeeds with
  \<open>isComplete = false\<close> and no next question leaves the current question and the
  transcript as they were (the transcript is not reset), does not end the session and
  leaves the interview active.
\<close>

theorem incomplete_without_question_keeps_state:
  assumes "isInterviewActive s" and "trim (transcript s) \<noteq> []" and "voiceSession s = Some v"
    and "\<not> isComplete result" and "nextQuestion result = None"
  shows "currentQuestion (submitVoiceResponse (Fulfilled result) (Fulfilled ()) ended s) =
           currentQuestion s \<and>
         transcript (submitVoiceResponse (Fulfilled result) (Fulfilled ()) ended s) =
           transcript s \<and>
         isInterviewActive (submitVoiceResponse (Fulfilled result) (Fulfilled ()) ended s) \<and>
         voiceSession (submitVoiceResponse (Fulfilled result) (Fulfilled ()) ended s) =
           voiceSession s \<and>
         connectionStatus (submitVoiceResponse (Fulfilled result) (Fulfilled ()) ended s) =
           connectionStatus s \<and>
         calls (submitVoiceResponse (Fulfilled result) (Fulfilled ()) ended s) =
           calls s @ [StopListening, ServiceProcess (sessionId v) (trim (transcript s)),
             SimulatorSubmit (trim (transcript s))]"
  using assms by (simp add: submitVoiceResponse_def emit_def)

theorem incomplete_without_question_keeps_state_witness:
  "isInterviewActive (activeScreen ''I have five years of experience'') \<and>
   trim (transcript (activeScreen ''I have five years of experience'')) \<noteq> [] \<and>
   currentQuestion (submitVoiceResponse (Fulfilled \<lparr>isComplete = False, nextQuestion = None\<rparr>)
     (Fulfilled ()) (Fulfilled ()) (activeScreen ''I have five years of experience'')) =
     ''Tell me about yourself.'' \<and>
   transcript (submitVoiceResponse (Fulfilled \<lparr>isComplete = False, nextQuestion = None\<rparr>)
     (Fulfilled ()) (Fulfilled ()) (activeScreen ''I have five years of experience'')) =
     ''I have five years of experience'' \<and>
   calls (submitVoiceResponse (Fulfilled \<lparr>isComplete = False, nextQuestion = None\<rparr>)
     (Fulfilled ()) (Fulfilled ()) (activeScreen ''I have five years of experience'')) =
     [StopListening, ServiceProcess ''session-1'' ''I have five years of experience'',
      SimulatorSubmit ''I have five years of experience'']"
proof -
  have a: "isInterviewActive (activeScreen ''I have five years of experience'')"
    by (simp add: activeScreen_def)
  have b: "trim (transcript (activeScreen ''I have five years of experience'')) \<noteq> []"
    by (simp add: activeScreen_def trim_experience)
  have c: "voiceSession (activeScreen ''I have five years of experience'') = Some exampleSession"
    by (simp add: activeScreen_def)
  have d: "\<not> isComplete \<lparr>isComplete = False, nextQuestion = None\<rparr>"
    by simp
  have e: "nextQuestion \<lparr>isComplete = False, nextQuestion = None\<rparr> = None"
    by simp
  from incomplete_without_question_keeps_state [OF a b c d e, of "Fulfilled ()"] a b
  show ?thesis by (simp add: activeScreen_def exampleSession_def trim_experience)
qed

text \<open>
  When the remote call resolves and the update of the simulator rejects, the handler's
  catch runs instead: the question and the transcript stay as they were.
\<close>

lemma simulator_failure_keeps_transcript:
  assumes "trim (transcript s) \<noteq> []" and "voiceSession s = Some v"
  shows "submitVoiceResponse (Fulfilled result) (Rejected e) ended s =
           s\<lparr>isThinking := False,
              calls := calls s @ [StopListening, ServiceProcess (sessionId v) (trim (transcript s)),
                SimulatorSubmit (trim (transcript s)),
                ConsoleError ''Error submitting voice response:'' e]\<rparr>"
  using assms by (simp add: submitVoiceResponse_def emit_def)

end
